theory Spec2Isabelle
  imports Complex_Main "HOL-Library.Multiset"
begin

section \<open>Tensors\<close>

text \<open>
  The notebook \<^verbatim>\<open>nst.ipynb\<close> works on torch tensors. A tensor is modelled by its
  shape and its elements in row-major order, which is the order \<^verbatim>\<open>view\<close> keeps.
  Elements are real numbers: rounding is not modelled, so every equation below is one of
  exact arithmetic. The two places where a float computation yields \<^verbatim>\<open>nan\<close> or
  \<^verbatim>\<open>inf\<close> (the mean of an empty tensor, a division by a zero element count) are
  explicit outcomes of the model and not the \<open>x / 0 = 0\<close> of HOL.
\<close>

record tensor =
  shape :: "nat list"
  data :: "real list"

text \<open>
  Outcomes other than a value. \<open>ValueError\<close>, \<open>RuntimeError\<close>, \<open>AttributeError\<close>
  and \<open>IOError\<close> are Python exceptions; \<open>ExtractionFailure\<close> is whatever the
  network raises. \<open>NonFinite\<close> is no exception: torch goes on with \<^verbatim>\<open>nan\<close>,
  a value the real numbers do not have, and the model stops there. \<open>Broadcast\<close> marks
  an elementwise operation on two different but compatible shapes, which torch broadcasts
  and this model does not follow.
\<close>

datatype error =
  ValueError | RuntimeError | AttributeError | IOError | ExtractionFailure
  | NonFinite | Broadcast

definition and_then :: "error + 'a \<Rightarrow> ('a \<Rightarrow> error + 'b) \<Rightarrow> error + 'b" where
  "and_then r f = (case r of Inl e \<Rightarrow> Inl e | Inr v \<Rightarrow> f v)"

definition wf_tensor :: "tensor \<Rightarrow> bool" where
  "wf_tensor t \<longleftrightarrow> length (data t) = prod_list (shape t)"

text \<open>An \<open>n\<close> by \<open>m\<close> table in row-major order.\<close>

definition tabulate2 :: "nat \<Rightarrow> nat \<Rightarrow> (nat \<Rightarrow> nat \<Rightarrow> real) \<Rightarrow> real list" where
  "tabulate2 n m f = concat (map (\<lambda>i. map (f i) [0..<m]) [0..<n])"

text \<open>\<^verbatim>\<open>x.view(sh)\<close>: same elements, new shape; raises unless the element counts agree.
  The tensor is taken to be contiguous, as the outputs of the network's layers are.\<close>

definition view :: "tensor \<Rightarrow> nat list \<Rightarrow> error + tensor" where
  "view x sh =
     (if prod_list sh = length (data x) then Inr \<lparr>shape = sh, data = data x\<rparr>
      else Inl RuntimeError)"

text \<open>\<^verbatim>\<open>x.t()\<close>: transposes a matrix, returns a tensor of fewer dimensions as it is,
  raises on more than two dimensions.\<close>

definition t :: "tensor \<Rightarrow> error + tensor" where
  "t x =
     (case shape x of
        [] \<Rightarrow> Inr x
      | [n] \<Rightarrow> Inr x
      | [n, m] \<Rightarrow> Inr \<lparr>shape = [m, n], data = tabulate2 m n (\<lambda>j i. data x ! (i * m + j))\<rparr>
      | _ \<Rightarrow> Inl RuntimeError)"

text \<open>\<^verbatim>\<open>torch.mm(a, b)\<close>: the product of two matrices whose inner sizes agree.\<close>

definition mm :: "tensor \<Rightarrow> tensor \<Rightarrow> error + tensor" where
  "mm a b =
     (case (shape a, shape b) of
        ([n, k], [k', m]) \<Rightarrow>
          if k = k' then
            Inr \<lparr>shape = [n, m],
                 data = tabulate2 n m
                   (\<lambda>i j. \<Sum>l\<leftarrow>[0..<k]. data a ! (i * k + l) * data b ! (l * m + j))\<rparr>
          else Inl RuntimeError
      | _ \<Rightarrow> Inl RuntimeError)"

text \<open>\<^verbatim>\<open>G / d\<close> for a Python integer \<open>d\<close>: a zero divisor turns every element into
  \<^verbatim>\<open>nan\<close> or \<^verbatim>\<open>inf\<close>; an empty tensor has no element to turn.\<close>

definition div_scalar :: "tensor \<Rightarrow> nat \<Rightarrow> error + tensor" where
  "div_scalar x d =
     (if d = 0 \<and> data x \<noteq> [] then Inl NonFinite
      else Inr \<lparr>shape = shape x, data = map (\<lambda>v. v / real d) (data x)\<rparr>)"

fun broadcastable :: "nat list \<Rightarrow> nat list \<Rightarrow> bool" where
  "broadcastable [] ys = True"
| "broadcastable xs [] = True"
| "broadcastable (x # xs) (y # ys) = ((x = y \<or> x = 1 \<or> y = 1) \<and> broadcastable xs ys)"

text \<open>\<^verbatim>\<open>a - b\<close>: elementwise on equal shapes; torch raises on shapes that do not
  broadcast (compared from the last dimension).\<close>

definition sub :: "tensor \<Rightarrow> tensor \<Rightarrow> error + tensor" where
  "sub a b =
     (if shape a = shape b then
        Inr \<lparr>shape = shape a, data = map2 (\<lambda>u v. u - v) (data a) (data b)\<rparr>
      else if broadcastable (rev (shape a)) (rev (shape b)) then Inl Broadcast
      else Inl RuntimeError)"

text \<open>\<^verbatim>\<open>x ** 2\<close>\<close>

definition pow2 :: "tensor \<Rightarrow> tensor" where
  "pow2 x = \<lparr>shape = shape x, data = map (\<lambda>v. v ^ 2) (data x)\<rparr>"

text \<open>\<^verbatim>\<open>torch.mean(x)\<close>: the sum over the element count; \<^verbatim>\<open>nan\<close> on no elements.\<close>

definition mean :: "tensor \<Rightarrow> error + real" where
  "mean x =
     (if data x = [] then Inl NonFinite
      else Inr (sum_list (data x) / real (length (data x))))"

section \<open>The loss functions of the notebook\<close>

definition content_loss :: "tensor \<Rightarrow> tensor \<Rightarrow> error + real" where
  "content_loss generated_feature content_feature =
     and_then (sub generated_feature content_feature) (\<lambda>d. mean (pow2 d))"

definition gram_matrix :: "tensor \<Rightarrow> error + tensor" where
  "gram_matrix feature =
     (case shape feature of
        [_, n_channels, height, width] \<Rightarrow>
          and_then (view feature [n_channels, height * width]) (\<lambda>f.
          and_then (t f) (\<lambda>ft.
          and_then (mm f ft) (\<lambda>G.
          div_scalar G (n_channels * height * width))))
      | _ \<Rightarrow> Inl ValueError)"

definition style_loss :: "tensor \<Rightarrow> tensor \<Rightarrow> error + real" where
  "style_loss generated_feature style_feature =
     and_then (gram_matrix generated_feature) (\<lambda>G.
     and_then (gram_matrix style_feature) (\<lambda>A.
     and_then (sub G A) (\<lambda>d. mean (pow2 d))))"

section \<open>The optimization loop\<close>

text \<open>
  What the loop takes from outside the notebook: the network \<open>model\<close> (a function of
  its input, which may raise), the two loaded images, the weights, one Adam update
  (\<^verbatim>\<open>zero_grad\<close>, \<^verbatim>\<open>backward\<close>, \<^verbatim>\<open>step\<close>: the new optimizer state and the
  new candidate, from the old ones) and \<^verbatim>\<open>save_image\<close>, which may raise.
\<close>

record 'o env =
  model :: "tensor \<Rightarrow> error + tensor list"
  original_img :: tensor
  style_img :: tensor
  alpha :: real
  beta :: real
  adam :: "'o \<Rightarrow> tensor \<Rightarrow> 'o \<times> tensor"
  save_image :: "tensor \<Rightarrow> nat \<Rightarrow> error + unit"

text \<open>One printed line, and the variables the loop changes.\<close>

record progress =
  p_step :: nat
  p_total_steps :: nat
  p_content_loss :: real
  p_style_loss :: real
  p_total_loss :: real

record 'o loop_state =
  generated :: tensor
  optimizer :: 'o
  printed :: "progress list"
  saved :: "(nat \<times> tensor) list"

text \<open>The Gram matrix as the loop body computes it, for \<open>G\<close> and for \<open>A\<close>.\<close>

definition loop_gram :: "nat \<Rightarrow> nat \<Rightarrow> nat \<Rightarrow> tensor \<Rightarrow> error + tensor" where
  "loop_gram channel height width feature =
     and_then (view feature [channel, height * width]) (\<lambda>a.
     and_then (view feature [channel, height * width]) (\<lambda>b.
     and_then (t b) (\<lambda>bt. mm a bt)))"

text \<open>The body of the inner loop: what one layer adds to \<open>c_loss\<close> and to \<open>s_loss\<close>.\<close>

definition layer_terms :: "tensor \<times> tensor \<times> tensor \<Rightarrow> error + real \<times> real" where
  "layer_terms l =
     (case l of (gen_feature, orig_feature, style_feature) \<Rightarrow>
       (case shape gen_feature of
          [batch_size, channel, height, width] \<Rightarrow>
            and_then (and_then (sub gen_feature orig_feature) (\<lambda>d. mean (pow2 d))) (\<lambda>c.
            and_then (loop_gram channel height width gen_feature) (\<lambda>G.
            and_then (loop_gram channel height width style_feature) (\<lambda>A.
            and_then (and_then (sub G A) (\<lambda>d. mean (pow2 d))) (\<lambda>s.
            Inr (c, s)))))
        | _ \<Rightarrow> Inl ValueError))"

fun layer_losses ::
  "real \<times> real \<Rightarrow> (tensor \<times> tensor \<times> tensor) list \<Rightarrow> error + real \<times> real" where
  "layer_losses (c_loss, s_loss) [] = Inr (c_loss, s_loss)"
| "layer_losses (c_loss, s_loss) (l # ls) =
     (case layer_terms l of
        Inl e \<Rightarrow> Inl e
      | Inr (c, s) \<Rightarrow> layer_losses (c_loss + c, s_loss + s) ls)"

text \<open>The three calls of the network and the \<^verbatim>\<open>zip\<close> of their results.\<close>

definition features :: "'o env \<Rightarrow> tensor \<Rightarrow> error + (tensor \<times> tensor \<times> tensor) list" where
  "features env g =
     and_then (model env g) (\<lambda>generated_features.
     and_then (model env (original_img env)) (\<lambda>original_img_features.
     and_then (model env (style_img env)) (\<lambda>style_img_features.
     Inr (zip generated_features (zip original_img_features style_img_features)))))"

text \<open>\<open>c_loss\<close>, \<open>s_loss\<close> and \<open>total_loss\<close> of one iteration.\<close>

definition losses ::
  "'o env \<Rightarrow> (tensor \<times> tensor \<times> tensor) list \<Rightarrow> error + real \<times> real \<times> real" where
  "losses env ls =
     (case layer_losses (0, 0) ls of
        Inl e \<Rightarrow> Inl e
      | Inr (c_loss, s_loss) \<Rightarrow>
          Inr (c_loss, s_loss, alpha env * c_loss + beta env * s_loss))"

text \<open>
  How the loop ends: it runs through (\<open>Completed\<close>), or an exception leaves it
  (\<open>Raised\<close>), in both cases with the variables as they are at that moment.
\<close>

datatype 'o outcome =
  is_Completed: Completed (final: "'o loop_state")
  | Raised (raised: error) (at_raise: "'o loop_state")

text \<open>
  One pass through the loop body. With no layer at all \<open>total_loss\<close> is a Python
  number and \<^verbatim>\<open>total_loss.backward()\<close> raises. The line is printed before the image
  is saved, and nothing catches what \<^verbatim>\<open>save_image\<close> raises.
\<close>

definition iteration :: "'o env \<Rightarrow> nat \<Rightarrow> nat \<Rightarrow> 'o loop_state \<Rightarrow> 'o outcome" where
  "iteration env total_steps step st =
     (case features env (generated st) of
        Inl e \<Rightarrow> Raised e st
      | Inr ls \<Rightarrow>
         (case losses env ls of
            Inl e \<Rightarrow> Raised e st
          | Inr (c_loss, s_loss, total_loss) \<Rightarrow>
              if ls = [] then Raised AttributeError st
              else
                let (opt', g') = adam env (optimizer st) (generated st);
                    st1 = st\<lparr>generated := g', optimizer := opt'\<rparr>
                in if step mod 200 = 0 then
                     let st2 = st1\<lparr>printed := printed st1 @
                           [\<lparr>p_step = step, p_total_steps = total_steps,
                             p_content_loss = c_loss, p_style_loss = s_loss,
                             p_total_loss = total_loss\<rparr>]\<rparr>
                     in (case save_image env g' step of
                           Inl e \<Rightarrow> Raised e st2
                         | Inr _ \<Rightarrow> Completed (st2\<lparr>saved := saved st2 @ [(step, g')]\<rparr>))
                   else Completed st1))"

fun run_steps :: "'o env \<Rightarrow> nat \<Rightarrow> nat list \<Rightarrow> 'o loop_state \<Rightarrow> 'o outcome" where
  "run_steps env total_steps [] st = Completed st"
| "run_steps env total_steps (step # steps) st =
     (case iteration env total_steps step st of
        Completed st' \<Rightarrow> run_steps env total_steps steps st'
      | Raised e st' \<Rightarrow> Raised e st')"

text \<open>\<^verbatim>\<open>for step in range(total_steps)\<close>\<close>

definition optimization_loop :: "'o env \<Rightarrow> nat \<Rightarrow> 'o loop_state \<Rightarrow> 'o outcome" where
  "optimization_loop env total_steps st = run_steps env total_steps [0..<total_steps] st"

text \<open>\<^verbatim>\<open>generated = original_img.clone()\<close>, a fresh optimizer, nothing printed or saved.\<close>

definition initial_state :: "'o env \<Rightarrow> 'o \<Rightarrow> 'o loop_state" where
  "initial_state env opt0 =
     \<lparr>generated = original_img env, optimizer = opt0, printed = [], saved = []\<rparr>"

section \<open>Auxiliary notions\<close>

text \<open>
  Entry \<open>(i, j)\<close> of the product of a \<open>c\<close> by \<open>k\<close> matrix with its transpose: the
  inner product of rows \<open>i\<close> and \<open>j\<close> of the flattened feature.
\<close>

definition gram_entry :: "nat \<Rightarrow> tensor \<Rightarrow> nat \<Rightarrow> nat \<Rightarrow> real" where
  "gram_entry k x i j = (\<Sum>l\<leftarrow>[0..<k]. data x ! (i * k + l) * data x ! (j * k + l))"



text \<open>
  A small run of the loop: a network with one extraction layer that returns its input,
  an optimizer step that leaves the candidate as it is, the weights of the notebook, and
  writes that succeed. The second environment differs in that every write fails.
\<close>

definition example_img :: tensor where
  "example_img = \<lparr>shape = [1, 1, 1, 2], data = [1, 1]\<rparr>"

definition example_style :: tensor where
  "example_style = \<lparr>shape = [1, 1, 1, 2], data = [0, 0]\<rparr>"

definition example_env :: "unit env" where
  "example_env =
     \<lparr>model = (\<lambda>x. Inr [x]), original_img = example_img, style_img = example_style,
      alpha = 1, beta = 1 / 100, adam = (\<lambda>opt g. (opt, g)),
      save_image = (\<lambda>g step. Inr ())\<rparr>"

definition failing_disk_env :: "unit env" where
  "failing_disk_env = example_env\<lparr>save_image := (\<lambda>g step. Inl IOError)\<rparr>"

section \<open>Tables and Gram entries\<close>

lemma length_tabulate2: "length (tabulate2 n m f) = n * m"
  by (induction n) (simp_all add: tabulate2_def)

lemma tabulate2_Suc:
  "tabulate2 (Suc n) m f = tabulate2 n m f @ map (f n) [0..<m]"
  by (simp add: tabulate2_def)

lemma flat_index_less: 
  assumes "i < n" "j < (m::nat)" shows "i * m + j < n * m"
proof -
  have "i * m + j < Suc i * m" using assms(2) by simp
  also have "\<dots> \<le> n * m" using assms(1) by (intro mult_le_mono1) simp
  finally show ?thesis .
qed

lemma nth_tabulate2: "i < n \<Longrightarrow> j < m \<Longrightarrow> tabulate2 n m f ! (i * m + j) = f i j"
proof (induction n)
  case 0
  then show ?case by simp
next
  case (Suc n)
  show ?case
  proof (cases "i < n")
    case True
    then have "i * m + j < n * m"
      using Suc.prems(2) by (rule flat_index_less)
    with Suc True show ?thesis
      by (simp add: tabulate2_Suc nth_append length_tabulate2)
  next
    case False
    with Suc.prems have "i = n" by simp
    with Suc.prems show ?thesis
      by (simp add: tabulate2_Suc nth_append length_tabulate2)
  qed
qed

lemma tabulate2_cong:
  "(\<And>i j. i < n \<Longrightarrow> j < m \<Longrightarrow> f i j = g i j) \<Longrightarrow> tabulate2 n m f = tabulate2 n m g"
  unfolding tabulate2_def by (rule arg_cong [where f = concat]) simp

lemma tabulate2_eq_Nil: "tabulate2 n m f = [] \<longleftrightarrow> n * m = 0"
  using length_tabulate2 [of n m f] by (metis length_0_conv)

lemma mm_t_view:
  assumes "length (data x) = c * k"
  shows "and_then (view x [c, k]) (\<lambda>f. and_then (t f) (\<lambda>ft. mm f ft)) =
         Inr \<lparr>shape = [c, c], data = tabulate2 c c (gram_entry k x)\<rparr>"
proof -
  have "tabulate2 c c (\<lambda>i j. \<Sum>l\<leftarrow>[0..<k]. data x ! (i * k + l) *
            tabulate2 k c (\<lambda>j i. data x ! (i * k + j)) ! (l * c + j)) =
        tabulate2 c c (gram_entry k x)"
  proof (rule tabulate2_cong)
    fix i j :: nat
    assume "j < c"
    then have "map (\<lambda>l. data x ! (i * k + l) *
                 tabulate2 k c (\<lambda>j i. data x ! (i * k + j)) ! (l * c + j)) [0..<k] =
               map (\<lambda>l. data x ! (i * k + l) * data x ! (j * k + l)) [0..<k]"
      by (intro map_cong refl) (simp add: nth_tabulate2)
    then show "(\<Sum>l\<leftarrow>[0..<k]. data x ! (i * k + l) *
                 tabulate2 k c (\<lambda>j i. data x ! (i * k + j)) ! (l * c + j)) =
               gram_entry k x i j"
      unfolding gram_entry_def by (rule arg_cong [where f = sum_list])
  qed
  then show ?thesis
    using assms by (simp add: view_def t_def mm_def and_then_def)
qed

lemma gram_entry_sym: "gram_entry k x i j = gram_entry k x j i"
  by (simp add: gram_entry_def mult.commute)

lemma loop_gram_eq:
  assumes "length (data x) = c * (h * w)"
  shows "loop_gram c h w x = Inr \<lparr>shape = [c, c], data = tabulate2 c c (gram_entry (h * w) x)\<rparr>"
  using mm_t_view [OF assms] assms by (simp add: loop_gram_def view_def and_then_def)

lemma gram_matrix_eq:
  assumes "shape x = [b, c, h, w]" "length (data x) = c * (h * w)"
  shows "gram_matrix x =
         div_scalar \<lparr>shape = [c, c], data = tabulate2 c c (gram_entry (h * w) x)\<rparr> (c * h * w)"
proof -
  have "gram_matrix x =
        and_then (and_then (view x [c, h * w]) (\<lambda>f. and_then (t f) (\<lambda>ft. mm f ft)))
          (\<lambda>G. div_scalar G (c * h * w))"
    using assms(1) by (simp add: gram_matrix_def and_then_def split: sum.splits)
  then show ?thesis
    using mm_t_view [OF assms(2)] by (simp add: and_then_def)
qed

lemma gram_matrix_raises:
  assumes "shape x = [b, c, h, w]" "length (data x) \<noteq> c * (h * w)"
  shows "gram_matrix x = Inl RuntimeError"
  using assms by (simp add: gram_matrix_def view_def and_then_def)

lemma gram_matrix_value:
  assumes "shape x = [b, c, h, w]" "length (data x) = c * (h * w)" "0 < h * w"
  shows "gram_matrix x =
         Inr \<lparr>shape = [c, c],
              data = map (\<lambda>v. v / real (c * h * w)) (tabulate2 c c (gram_entry (h * w) x))\<rparr>"
proof -
  show ?thesis
  proof (cases "c = 0")
    case True
    then show ?thesis
      unfolding gram_matrix_eq [OF assms(1,2)] by (simp add: div_scalar_def tabulate2_eq_Nil)
  next
    case False
    then show ?thesis
      unfolding gram_matrix_eq [OF assms(1,2)] using assms(3) by (simp add: div_scalar_def)
  qed
qed

section \<open>Means of squared differences\<close>

lemma mean_pow2_nonneg: "mean (pow2 d) = Inr v \<Longrightarrow> 0 \<le> v"
  by (auto simp add: mean_def pow2_def split: if_splits intro!: divide_nonneg_nonneg sum_list_nonneg)

lemma content_loss_nonneg: "content_loss g s = Inr v \<Longrightarrow> 0 \<le> v"
  by (auto simp add: content_loss_def and_then_def split: sum.splits dest: mean_pow2_nonneg)

lemma style_loss_nonneg: "style_loss g s = Inr v \<Longrightarrow> 0 \<le> v"
  by (auto simp add: style_loss_def and_then_def split: sum.splits dest: mean_pow2_nonneg)

lemma sub_self: "sub x x = Inr \<lparr>shape = shape x, data = map (\<lambda>v. 0) (data x)\<rparr>"
proof -
  have "map2 (\<lambda>u v. u - v) d d = map (\<lambda>v. 0) d" for d :: "real list"
    by (induction d) simp_all
  then show ?thesis by (simp add: sub_def)
qed

lemma sum_list_zeros: "sum_list (map (\<lambda>v. 0) (d :: real list)) = (0::real)"
  by (induction d) simp_all

lemma mse_self: "and_then (sub x x) (\<lambda>d. mean (pow2 d)) = (if data x = [] then Inl NonFinite else Inr 0)"
  by (simp add: sub_self and_then_def mean_def pow2_def comp_def sum_list_zeros)

lemma mse_self_value:
  assumes "sub g g = Inr d" "mean (pow2 d) = Inr c"
  shows "c = 0"
  using assms mse_self [of g] by (simp add: and_then_def split: if_splits)

lemma content_loss_self: "content_loss x x = (if data x = [] then Inl NonFinite else Inr 0)"
  by (simp add: content_loss_def mse_self)

lemma style_loss_self:
  assumes "gram_matrix x = Inr G" "data G \<noteq> []"
  shows "style_loss x x = Inr 0"
  using assms by (simp add: style_loss_def and_then_def mse_self [unfolded and_then_def])

lemma mse_returns:
  assumes "shape g = shape s" "data g \<noteq> []" "data s \<noteq> []"
  shows "\<exists>v. and_then (sub g s) (\<lambda>d. mean (pow2 d)) = Inr v"
  using assms by (cases "data g"; cases "data s") (simp_all add: sub_def and_then_def mean_def pow2_def)

lemma mean_pow2_div:
  fixes n :: real
  assumes "mean (pow2 \<lparr>shape = sh, data = d\<rparr>) = Inr v"
  shows "mean (pow2 \<lparr>shape = sh, data = map (\<lambda>v. v / n) d\<rparr>) = Inr (v / n ^ 2)"
proof -
  have sq: "sum_list (map ((\<lambda>v. v ^ 2) \<circ> (\<lambda>v. v / n)) e) = sum_list (map (\<lambda>v. v ^ 2) e) / n ^ 2"
    for e :: "real list"
    by (induction e) (simp_all add: power_divide add_divide_distrib)
  from assms have ne: "d \<noteq> []" and v: "v = sum_list (map (\<lambda>v. v ^ 2) d) / real (length d)"
    by (auto simp add: mean_def pow2_def split: if_splits)
  show ?thesis
    using ne by (simp add: mean_def pow2_def sq v)
qed

lemma mean_pow2_scaled:
  fixes n :: real
  assumes "mean (pow2 \<lparr>shape = sh, data = map2 (\<lambda>u v. u - v) xs ys\<rparr>) = Inr v"
  shows "mean (pow2 \<lparr>shape = sh,
           data = map2 (\<lambda>u v. u - v) (map (\<lambda>v. v / n) xs) (map (\<lambda>v. v / n) ys)\<rparr>) =
         Inr (v / n ^ 2)"
proof -
  have "map2 (\<lambda>u v. u - v) (map (\<lambda>v. v / n) xs) (map (\<lambda>v. v / n) ys) =
        map (\<lambda>v. v / n) (map2 (\<lambda>u v. u - v) xs ys)"
    by (simp add: zip_map_map split_def diff_divide_distrib)
  then show ?thesis
    using mean_pow2_div [OF assms, of n] by (simp only:)
qed

section \<open>The inner loop and the iterations\<close>

lemma layer_losses_sum:
  "layer_losses (c0, s0) ls = Inr (c, s) \<Longrightarrow>
   \<exists>ts. map layer_terms ls = map Inr ts \<and>
        c = c0 + sum_list (map fst ts) \<and> s = s0 + sum_list (map snd ts)"
proof (induction ls arbitrary: c0 s0)
  case Nil
  then show ?case by simp
next
  case (Cons l ls)
  from Cons.prems obtain c1 s1 where l: "layer_terms l = Inr (c1, s1)"
    and rest: "layer_losses (c0 + c1, s0 + s1) ls = Inr (c, s)"
    by (auto split: sum.splits)
  from Cons.IH [OF rest] obtain ts where ts: "map layer_terms ls = map Inr ts"
    "c = c0 + c1 + sum_list (map fst ts)" "s = s0 + s1 + sum_list (map snd ts)"
    by blast
  show ?case
    using l ts by (intro exI [of _ "(c1, s1) # ts"]) simp
qed

lemma layer_terms_same_content:
  assumes "layer_terms (g, g, s) = Inr (c, v)"
  shows "c = 0"
  using assms
  by (auto simp add: layer_terms_def and_then_def split: list.splits sum.splits
      dest: mse_self_value)

lemma layer_losses_same_content:
  assumes "layer_losses (c0, s0) ls = Inr (c, s)" "\<forall>l\<in>set ls. fst l = fst (snd l)"
  shows "c = c0"
  using assms
proof (induction ls arbitrary: c0 s0)
  case Nil
  then show ?case by simp
next
  case (Cons l ls)
  from Cons.prems(1) obtain c1 s1 where l: "layer_terms l = Inr (c1, s1)"
    and rest: "layer_losses (c0 + c1, s0 + s1) ls = Inr (c, s)"
    by (auto split: sum.splits)
  obtain g o' s' where "l = (g, o', s')" by (cases l) auto
  with Cons.prems(2) l have "c1 = 0"
    using layer_terms_same_content by auto
  with Cons.IH [OF rest] Cons.prems(2) show ?case by simp
qed

lemma zip_same_fst: "\<forall>l\<in>set (zip fs (zip fs ss)). fst l = fst (snd l)"
  by (auto simp add: in_set_zip)

lemma features_initial:
  assumes "features env (original_img env) = Inr ls"
  shows "\<forall>l\<in>set ls. fst l = fst (snd l)"
  using assms zip_same_fst
  by (auto simp add: features_def and_then_def split: sum.splits)

lemma iteration_Completed:
  assumes "iteration env n k st = Completed st'"
  shows "\<exists>ls c s tl opt' g'. features env (generated st) = Inr ls \<and> ls \<noteq> [] \<and>
           losses env ls = Inr (c, s, tl) \<and>
           adam env (optimizer st) (generated st) = (opt', g') \<and>
           generated st' = g' \<and> optimizer st' = opt' \<and>
           printed st' = printed st @
             (if k mod 200 = 0
              then [\<lparr>p_step = k, p_total_steps = n, p_content_loss = c, p_style_loss = s,
                     p_total_loss = tl\<rparr>]
              else []) \<and>
           saved st' = saved st @ (if k mod 200 = 0 then [(k, g')] else [])"
  using assms
  by (auto simp add: iteration_def Let_def split: sum.splits prod.splits if_splits)

lemma run_steps_append:
  "run_steps env n (ks @ ks') st =
     (case run_steps env n ks st of
        Completed st' \<Rightarrow> run_steps env n ks' st'
      | Raised e st' \<Rightarrow> Raised e st')"
  by (induction ks arbitrary: st) (simp_all split: outcome.splits)

lemma run_steps_printed:
  assumes "run_steps env n ks st = Completed st'"
  shows "map p_step (printed st') = map p_step (printed st) @ filter (\<lambda>k. k mod 200 = 0) ks \<and>
         map fst (saved st') = map fst (saved st) @ filter (\<lambda>k. k mod 200 = 0) ks \<and>
         (\<forall>r\<in>set (printed st') - set (printed st). p_total_steps r = n \<and>
             p_total_loss r = alpha env * p_content_loss r + beta env * p_style_loss r)"
  using assms
proof (induction ks arbitrary: st)
  case Nil
  then show ?case by simp
next
  case (Cons k ks)
  from Cons.prems obtain st1 where it: "iteration env n k st = Completed st1"
    and rest: "run_steps env n ks st1 = Completed st'"
    by (auto split: outcome.splits)
  from iteration_Completed [OF it] obtain ls c s tl g' where
    l: "losses env ls = Inr (c, s, tl)" and
    p: "printed st1 = printed st @
          (if k mod 200 = 0
           then [\<lparr>p_step = k, p_total_steps = n, p_content_loss = c, p_style_loss = s,
                  p_total_loss = tl\<rparr>]
           else [])" and
    s: "saved st1 = saved st @ (if k mod 200 = 0 then [(k, g')] else [])"
    by blast
  from l have tl: "tl = alpha env * c + beta env * s"
    by (auto simp add: losses_def split: sum.splits)
  from Cons.IH [OF rest] p s tl show ?case
    by (auto split: if_splits)
qed

lemma ceil_step: "(Suc n + 199) div 200 = (n + 199) div 200 + (if n mod 200 = 0 then 1 else 0)"
proof -
  define q r where "q = n div 200" and "r = n mod 200"
  have n: "n = 200 * q + r" and r: "r < 200" by (simp_all add: q_def r_def)
  have a: "(Suc n + 199) div 200 = q + 1"
    using r unfolding n by (intro div_nat_eqI) simp_all
  have b: "(n + 199) div 200 = q + (if r = 0 then 0 else 1)"
    using r unfolding n by (intro div_nat_eqI) simp_all
  have c: "n mod 200 = r" by (simp add: r_def)
  show ?thesis unfolding a b c by simp
qed

lemma ceil_dvd: "200 dvd n \<Longrightarrow> (n + 199) div 200 = n div (200::nat)"
  by (elim dvdE) simp

lemma count_multiples: "length (filter (\<lambda>k. k mod 200 = 0) [0..<n]) = (n + 199) div 200"
proof (induction n)
  case 0
  then show ?case by simp
next
  case (Suc n)
  have "length (filter (\<lambda>k. k mod 200 = 0) [0..<Suc n]) =
        length (filter (\<lambda>k. k mod 200 = 0) [0..<n]) + (if n mod 200 = 0 then 1 else 0)"
    by simp
  also have "\<dots> = (n + 199) div 200 + (if n mod 200 = 0 then 1 else 0)"
    by (simp only: Suc)
  also have "\<dots> = (Suc n + 199) div 200"
    by (simp only: ceil_step)
  finally show ?case .
qed

lemma run_steps_completes:
  assumes "\<And>k st. I st \<Longrightarrow> \<exists>st'. iteration env n k st = Completed st' \<and> I st'" and "I st"
  shows "\<exists>st'. run_steps env n ks st = Completed st' \<and> I st'"
  using assms(2)
proof (induction ks arbitrary: st)
  case Nil
  then show ?case by simp
next
  case (Cons k ks)
  from assms(1) [OF Cons.prems] obtain st1 where
    "iteration env n k st = Completed st1" "I st1" by blast
  with Cons.IH [of st1] show ?case by simp
qed

section \<open>The example environments\<close>

lemmas eval_defs =
  content_loss_def style_loss_def gram_matrix_def loop_gram_def layer_terms_def
  view_def t_def mm_def div_scalar_def sub_def pow2_def mean_def and_then_def tabulate2_def
  upt_rec nth_Cons'

lemma example_fields:
  "original_img example_env = example_img"
  "adam example_env = (\<lambda>opt g. (opt, g))"
  "save_image example_env = (\<lambda>g step. Inr ())"
  "original_img failing_disk_env = example_img"
  "adam failing_disk_env = (\<lambda>opt g. (opt, g))"
  "save_image failing_disk_env = (\<lambda>g step. Inl IOError)"
  by (simp_all add: example_env_def failing_disk_env_def)

lemma example_features:
  "features example_env example_img = Inr [(example_img, example_img, example_style)]"
  "features failing_disk_env example_img = Inr [(example_img, example_img, example_style)]"
  by (simp_all add: features_def example_env_def failing_disk_env_def and_then_def)

lemma example_layer_terms:
  "layer_terms (example_img, example_img, example_style) = Inr (0, 4)"
  by (simp add: example_img_def example_style_def eval_defs)

lemma example_losses:
  "losses example_env [(example_img, example_img, example_style)] = Inr (0, 4, 1 / 25)"
  "losses failing_disk_env [(example_img, example_img, example_style)] = Inr (0, 4, 1 / 25)"
  by (simp_all add: losses_def example_layer_terms example_env_def failing_disk_env_def)

lemma example_iteration:
  assumes "generated st = example_img"
  shows "\<exists>st'. iteration example_env n k st = Completed st' \<and> generated st' = example_img"
  using assms
  by (simp add: iteration_def example_features example_losses Let_def)
     (simp add: example_env_def)

lemma example_run:
  "\<exists>st. optimization_loop example_env n (initial_state example_env ()) = Completed st"
proof -
  have "generated (initial_state example_env ()) = example_img"
    by (simp add: initial_state_def example_env_def)
  from run_steps_completes [of "\<lambda>st. generated st = example_img" example_env n, OF example_iteration this]
  show ?thesis
    unfolding optimization_loop_def by blast
qed

lemma failing_disk_first_iteration:
  "iteration failing_disk_env n 0 (initial_state failing_disk_env ()) =
     Raised IOError
       \<lparr>generated = example_img, optimizer = (),
        printed = [\<lparr>p_step = 0, p_total_steps = n, p_content_loss = 0, p_style_loss = 4,
                    p_total_loss = 1 / 25\<rparr>],
        saved = []\<rparr>"
  by (simp add: iteration_def initial_state_def example_fields example_features
      example_losses)

section \<open>C1: the style term of the loop and style_loss\<close>

text \<open>
  On features of one image the style term of the loop body is the value of
  \<open>style_loss\<close> multiplied by the square of the element count.
\<close>
lemma loop_style_term_scaled:
  assumes "shape g = [1, c, h, w]" "shape s = [1, c, h, w]" "wf_tensor g" "wf_tensor s"
    and "0 < c * h * w" and "layer_terms (g, orig, s) = Inr (cl, sl)"
  shows "style_loss g s = Inr (sl / real (c * h * w) ^ 2)"
proof -
  from assms have lg: "length (data g) = c * (h * w)" and ls: "length (data s) = c * (h * w)"
    by (simp_all add: wf_tensor_def)
  from assms(5) have hw: "0 < h * w" by simp
  from assms(1,6) have
    "mean (pow2 \<lparr>shape = [c, c],
       data = map2 (\<lambda>u v. u - v) (tabulate2 c c (gram_entry (h * w) g))
                (tabulate2 c c (gram_entry (h * w) s))\<rparr>) = Inr sl"
    by (auto simp add: layer_terms_def loop_gram_eq [OF lg] loop_gram_eq [OF ls] and_then_def
        sub_def split: sum.splits)
  from mean_pow2_scaled [OF this, of "real (c * h * w)"] show ?thesis
    by (simp add: style_loss_def gram_matrix_value [OF assms(1) lg hw]
        gram_matrix_value [OF assms(2) ls hw] and_then_def sub_def)
qed

text \<open>
  Claim C1. On the example image and style the loop body adds 4 to \<open>s_loss\<close> where
  \<open>style_loss\<close> returns 1: the Gram matrix of the loop body is the product alone,
  that of \<open>gram_matrix\<close> is the product divided by the element count.
\<close>
theorem loop_style_term_unnormalised:
  "layer_terms (example_img, example_img, example_style) = Inr (0, 4) \<and>
   style_loss example_img example_style = Inr 1 \<and>
   loop_gram 1 1 2 example_img = Inr \<lparr>shape = [1, 1], data = [2]\<rparr> \<and>
   gram_matrix example_img = Inr \<lparr>shape = [1, 1], data = [1]\<rparr>"
  by (simp add: example_img_def example_style_def eval_defs)

section \<open>C2: the progress records of a run\<close>

text \<open>
  Claim C2, amended. A loop that runs through has printed one line for each multiple of
  200 below \<open>total_steps\<close>, step 0 included, in order: \<open>total_steps / 200\<close> rounded
  up, which is \<open>total_steps div 200\<close> when 200 divides \<open>total_steps\<close>. Each line
  carries the step and the three losses, and an image is saved with each line.
\<close>
theorem progress_records_emitted:
  assumes "optimization_loop env total_steps (initial_state env opt0) = Completed st"
  shows "map p_step (printed st) = filter (\<lambda>k. k mod 200 = 0) [0..<total_steps] \<and>
         length (printed st) = (total_steps + 199) div 200 \<and>
         (200 dvd total_steps \<longrightarrow> length (printed st) = total_steps div 200) \<and>
         (\<forall>r\<in>set (printed st). p_total_steps r = total_steps \<and>
            p_total_loss r = alpha env * p_content_loss r + beta env * p_style_loss r) \<and>
         map fst (saved st) = filter (\<lambda>k. k mod 200 = 0) [0..<total_steps]"
proof -
  from assms have run: "run_steps env total_steps [0..<total_steps] (initial_state env opt0) = Completed st"
    by (simp add: optimization_loop_def)
  note r = run_steps_printed [OF run]
  from r have steps: "map p_step (printed st) = filter (\<lambda>k. k mod 200 = 0) [0..<total_steps]"
    by (simp add: initial_state_def)
  then have "length (map p_step (printed st)) = (total_steps + 199) div 200"
    by (simp only: count_multiples)
  then have len: "length (printed st) = (total_steps + 199) div 200" by simp
  note dv = ceil_dvd [of total_steps]
  from r steps len dv show ?thesis
    by (simp add: initial_state_def)
qed

text \<open>Ten thousand steps in the example environment: fifty lines.\<close>
theorem progress_records_emitted_witness:
  "\<exists>st. optimization_loop example_env 10000 (initial_state example_env ()) = Completed st \<and>
        (200::nat) dvd 10000 \<and> length (printed st) = 50 \<and>
        map p_step (printed st) = filter (\<lambda>k. k mod 200 = 0) [0..<10000]"
proof -
  obtain st where st: "optimization_loop example_env 10000 (initial_state example_env ()) = Completed st"
    using example_run by blast
  from progress_records_emitted [OF st] st show ?thesis by simp
qed

text \<open>
  Ten thousand steps in the example environment print fifty lines, the one of step 0
  among them, and not fifty-one.
\<close>
theorem progress_records_off_by_one:
  "is_Completed (optimization_loop example_env 10000 (initial_state example_env ())) \<and>
   length (printed (final (optimization_loop example_env 10000 (initial_state example_env ()))))
     = 50 \<and>
   length (printed (final (optimization_loop example_env 10000 (initial_state example_env ()))))
     \<noteq> 10000 div 200 + 1"
proof -
  obtain st where st: "optimization_loop example_env 10000 (initial_state example_env ()) = Completed st"
    using example_run by blast
  then have "run_steps example_env 10000 [0..<10000] (initial_state example_env ()) = Completed st"
    by (simp add: optimization_loop_def)
  from run_steps_printed [OF this]
  have "map p_step (printed st) = filter (\<lambda>k. k mod 200 = 0) [0..<10000]"
    by (simp add: initial_state_def)
  then have "length (map p_step (printed st)) = (10000 + 199) div 200"
    by (simp only: count_multiples)
  then have "length (printed st) = 50" by simp
  with st show ?thesis by simp
qed

section \<open>C3: a checkpoint write that fails\<close>

text \<open>
  Claim C3, amended. When \<^verbatim>\<open>save_image\<close> raises at a reporting step, the exception
  leaves the loop and no later iteration runs. The candidate is the one the optimizer
  step of that iteration produced, the line of that step is printed, no image is added.
\<close>
theorem checkpoint_failure_propagates:
  assumes "k < total_steps" and "k mod 200 = 0"
    and "run_steps env total_steps [0..<k] st0 = Completed st"
    and "features env (generated st) = Inr ls" and "ls \<noteq> []"
    and "losses env ls = Inr (c_loss, s_loss, total_loss)"
    and "adam env (optimizer st) (generated st) = (opt', g')"
    and "save_image env g' k = Inl e"
  shows "optimization_loop env total_steps st0 =
           Raised e (st\<lparr>generated := g', optimizer := opt',
             printed := printed st @
               [\<lparr>p_step = k, p_total_steps = total_steps, p_content_loss = c_loss,
                 p_style_loss = s_loss, p_total_loss = total_loss\<rparr>]\<rparr>) \<and>
         \<not> is_Completed (optimization_loop env total_steps st0) \<and>
         generated (at_raise (optimization_loop env total_steps st0)) = g' \<and>
         saved (at_raise (optimization_loop env total_steps st0)) = saved st"
proof -
  have split: "[0..<total_steps] = [0..<k] @ k # [Suc k..<total_steps]"
  proof -
    have "[0..<total_steps] = [0..<k] @ [k..<total_steps]"
      using assms(1) upt_add_eq_append [of 0 k "total_steps - k"] by simp
    then show ?thesis
      using assms(1) by (simp add: upt_conv_Cons)
  qed
  have it: "iteration env total_steps k st =
           Raised e (st\<lparr>generated := g', optimizer := opt',
             printed := printed st @
               [\<lparr>p_step = k, p_total_steps = total_steps, p_content_loss = c_loss,
                 p_style_loss = s_loss, p_total_loss = total_loss\<rparr>]\<rparr>)"
    using assms(2,4-8) by (simp add: iteration_def Let_def)
  have "optimization_loop env total_steps st0 =
           Raised e (st\<lparr>generated := g', optimizer := opt',
             printed := printed st @
               [\<lparr>p_step = k, p_total_steps = total_steps, p_content_loss = c_loss,
                 p_style_loss = s_loss, p_total_loss = total_loss\<rparr>]\<rparr>)"
    unfolding optimization_loop_def split run_steps_append
    using assms(3) it by simp
  then show ?thesis by simp
qed

text \<open>Two steps on a disk that fails, from the first step.\<close>
theorem checkpoint_failure_propagates_witness:
  "(0::nat) < 2 \<and> (0::nat) mod 200 = 0 \<and>
   run_steps failing_disk_env 2 [0..<0] (initial_state failing_disk_env ()) =
     Completed (initial_state failing_disk_env ()) \<and>
   save_image failing_disk_env example_img 0 = Inl IOError \<and>
   optimization_loop failing_disk_env 2 (initial_state failing_disk_env ()) =
     Raised IOError
       \<lparr>generated = example_img, optimizer = (),
        printed = [\<lparr>p_step = 0, p_total_steps = 2, p_content_loss = 0, p_style_loss = 4,
                    p_total_loss = 1 / 25\<rparr>],
        saved = []\<rparr>"
  using checkpoint_failure_propagates
    [of 0 2 failing_disk_env "initial_state failing_disk_env ()"
        "initial_state failing_disk_env ()"
        "[(example_img, example_img, example_style)]" 0 4 "1 / 25" "()" example_img IOError]
  by (simp add: initial_state_def example_fields example_features example_losses)

text \<open>
  Two steps on a disk that fails: the loop ends at step 0 with the I/O error and does
  not complete.
\<close>
theorem checkpoint_failure_aborts_run:
  "optimization_loop failing_disk_env 2 (initial_state failing_disk_env ()) =
     Raised IOError
       \<lparr>generated = example_img, optimizer = (),
        printed = [\<lparr>p_step = 0, p_total_steps = 2, p_content_loss = 0, p_style_loss = 4,
                    p_total_loss = 1 / 25\<rparr>],
        saved = []\<rparr> \<and>
   \<not> is_Completed (optimization_loop failing_disk_env 2 (initial_state failing_disk_env ()))"
  by (simp add: optimization_loop_def upt_rec failing_disk_first_iteration)

section \<open>C4: the total loss\<close>

text \<open>
  Claim C4. The total loss of an iteration is \<open>alpha\<close> times the plain sum of the
  content terms of the layers plus \<open>beta\<close> times the plain sum of their style terms;
  with \<open>alpha = 0\<close> only the style terms are left, with \<open>beta = 0\<close> only the content
  terms.
\<close>
theorem total_loss_is_weighted_sum:
  assumes "losses env ls = Inr (c_loss, s_loss, total_loss)"
  shows "\<exists>ts. map layer_terms ls = map Inr ts \<and>
           c_loss = sum_list (map fst ts) \<and> s_loss = sum_list (map snd ts) \<and>
           total_loss = alpha env * sum_list (map fst ts) + beta env * sum_list (map snd ts) \<and>
           (alpha env = 0 \<longrightarrow> total_loss = beta env * sum_list (map snd ts)) \<and>
           (beta env = 0 \<longrightarrow> total_loss = alpha env * sum_list (map fst ts))"
proof -
  from assms obtain c s where cs: "layer_losses (0, 0) ls = Inr (c, s)"
    and eq: "c_loss = c" "s_loss = s" "total_loss = alpha env * c + beta env * s"
    by (auto simp add: losses_def split: sum.splits)
  from layer_losses_sum [OF cs] obtain ts where "map layer_terms ls = map Inr ts"
    "c = sum_list (map fst ts)" "s = sum_list (map snd ts)"
    by auto
  with eq show ?thesis by (intro exI [of _ ts]) simp
qed

text \<open>
  One layer with content term 1 and style term 4: the total is 26 / 25 with the weights of
  the notebook, 1 / 25 with \<open>alpha = 0\<close> and 1 with \<open>beta = 0\<close>.
\<close>
theorem total_loss_is_weighted_sum_witness:
  "losses example_env [(example_img, example_style, example_style)] = Inr (1, 4, 26 / 25) \<and>
   losses (example_env\<lparr>alpha := 0\<rparr>) [(example_img, example_style, example_style)] =
     Inr (1, 4, 1 / 25) \<and>
   losses (example_env\<lparr>beta := 0\<rparr>) [(example_img, example_style, example_style)] =
     Inr (1, 4, 1) \<and>
   (\<exists>ts. map layer_terms [(example_img, example_style, example_style)] = map Inr ts \<and>
      (26 / 25 :: real) = 1 * sum_list (map fst ts) + 1 / 100 * sum_list (map snd ts)) \<and>
   (\<exists>ts. map layer_terms [(example_img, example_style, example_style)] = map Inr ts \<and>
      (1 / 25 :: real) = 1 / 100 * sum_list (map snd ts)) \<and>
   (\<exists>ts. map layer_terms [(example_img, example_style, example_style)] = map Inr ts \<and>
      (1 :: real) = 1 * sum_list (map fst ts))"
proof -
  let ?ls = "[(example_img, example_style, example_style)]"
  have lt: "layer_terms (example_img, example_style, example_style) = Inr (1, 4)"
    by (simp add: example_img_def example_style_def eval_defs)
  have l1: "losses example_env ?ls = Inr (1, 4, 26 / 25)"
    by (simp add: losses_def lt example_env_def)
  have l2: "losses (example_env\<lparr>alpha := 0\<rparr>) ?ls = Inr (1, 4, 1 / 25)"
    by (simp add: losses_def lt example_env_def)
  have l3: "losses (example_env\<lparr>beta := 0\<rparr>) ?ls = Inr (1, 4, 1)"
    by (simp add: losses_def lt example_env_def)
  have f: "alpha example_env = 1" "beta example_env = 1 / 100"
    "alpha (example_env\<lparr>alpha := 0\<rparr>) = 0" "beta (example_env\<lparr>alpha := 0\<rparr>) = 1 / 100"
    "alpha (example_env\<lparr>beta := 0\<rparr>) = 1" "beta (example_env\<lparr>beta := 0\<rparr>) = 0"
    by (simp_all add: example_env_def)
  have w1: "\<exists>ts. map layer_terms ?ls = map Inr ts \<and>
      (26 / 25 :: real) = 1 * sum_list (map fst ts) + 1 / 100 * sum_list (map snd ts)"
    using total_loss_is_weighted_sum [OF l1] unfolding f by blast
  have w2: "\<exists>ts. map layer_terms ?ls = map Inr ts \<and>
      (1 / 25 :: real) = 1 / 100 * sum_list (map snd ts)"
    using total_loss_is_weighted_sum [OF l2] unfolding f by blast
  have w3: "\<exists>ts. map layer_terms ?ls = map Inr ts \<and>
      (1 :: real) = 1 * sum_list (map fst ts)"
    using total_loss_is_weighted_sum [OF l3] unfolding f by blast
  from l1 l2 l3 w1 w2 w3 show ?thesis by (intro conjI)
qed

section \<open>C5: the Gram matrix is square and symmetric\<close>

text \<open>
  Claim C5. For a feature of one image (batch dimension 1) with \<open>c\<close> channels and
  nonzero spatial extent, \<open>gram_matrix\<close> returns a \<open>c\<close> by \<open>c\<close> matrix whose entry
  \<open>(i, j)\<close> equals its entry \<open>(j, i)\<close>.
\<close>
theorem gram_matrix_square_symmetric:
  assumes "shape x = [1, c, h, w]" and "wf_tensor x" and "0 < h * w"
  shows "\<exists>G. gram_matrix x = Inr G \<and> shape G = [c, c] \<and> length (data G) = c * c \<and>
           (\<forall>i<c. \<forall>j<c. data G ! (i * c + j) = data G ! (j * c + i))"
proof -
  let ?E = "tabulate2 c c (gram_entry (h * w) x)"
  let ?G = "\<lparr>shape = [c, c], data = map (\<lambda>v. v / real (c * h * w)) ?E\<rparr>"
  have len: "length (data x) = c * (h * w)"
    using assms(1,2) by (simp add: wf_tensor_def)
  have G: "gram_matrix x = Inr ?G"
    by (rule gram_matrix_value [OF assms(1) len assms(3)])
  have sym: "data ?G ! (i * c + j) = data ?G ! (j * c + i)" if "i < c" "j < c" for i j
  proof -
    have "i * c + j < c * c" "j * c + i < c * c"
      using that flat_index_less by blast+
    then show ?thesis
      using that by (simp add: length_tabulate2 nth_tabulate2 gram_entry_sym [of _ _ i j])
  qed
  show ?thesis
    using G sym by (intro exI [of _ ?G]) (simp add: length_tabulate2)
qed

text \<open>The Gram matrix of a feature with two channels of two positions each.\<close>
theorem gram_matrix_square_symmetric_witness:
  "shape \<lparr>shape = [1, 2, 1, 2], data = [1, 2, 3, 4]\<rparr> = [1, 2, 1, 2] \<and>
   wf_tensor \<lparr>shape = [1, 2, 1, 2], data = [1, 2, 3, 4]\<rparr> \<and> (0::nat) < 1 * 2 \<and>
   gram_matrix \<lparr>shape = [1, 2, 1, 2], data = [1, 2, 3, 4]\<rparr> =
     Inr \<lparr>shape = [2, 2], data = [5 / 4, 11 / 4, 11 / 4, 25 / 4]\<rparr> \<and>
   (\<exists>G. gram_matrix \<lparr>shape = [1, 2, 1, 2], data = [1, 2, 3, 4]\<rparr> = Inr G \<and>
        shape G = [2, 2] \<and> length (data G) = 2 * 2 \<and>
        (\<forall>i<2. \<forall>j<2. data G ! (i * 2 + j) = data G ! (j * 2 + i)))"
  using gram_matrix_square_symmetric [of "\<lparr>shape = [1, 2, 1, 2], data = [1, 2, 3, 4]\<rparr>" 2 1 2]
  by (simp add: wf_tensor_def eval_defs)

section \<open>C6: reshuffled spatial positions\<close>







section \<open>C7: a feature against itself\<close>

text \<open>
  Claim C7, amended. Against itself a tensor with at least one element has content loss
  zero, and a feature of one image (batch dimension 1) with at least one element has
  style loss zero.
\<close>
theorem losses_zero_on_identical_inputs:
  "(data x \<noteq> [] \<longrightarrow> content_loss x x = Inr 0) \<and>
   (shape x = [1, c, h, w] \<and> wf_tensor x \<and> 0 < c * h * w \<longrightarrow> style_loss x x = Inr 0)"
proof (intro conjI impI)
  assume "data x \<noteq> []"
  then show "content_loss x x = Inr 0" by (simp add: content_loss_self)
next
  assume a: "shape x = [1, c, h, w] \<and> wf_tensor x \<and> 0 < c * h * w"
  then have len: "length (data x) = c * (h * w)" by (simp add: wf_tensor_def)
  from a have hw: "0 < h * w" and c: "0 < c" by simp_all
  from a have sh: "shape x = [1, c, h, w]" by simp
  show "style_loss x x = Inr 0"
    using c by (intro style_loss_self [OF gram_matrix_value [OF sh len hw]])
      (simp add: tabulate2_eq_Nil)
qed

text \<open>The example image against itself.\<close>
theorem losses_zero_on_identical_inputs_witness:
  "data example_img \<noteq> [] \<and> content_loss example_img example_img = Inr 0 \<and>
   shape example_img = [1, 1, 1, 2] \<and> wf_tensor example_img \<and> (0::nat) < 1 * 1 * 2 \<and>
   style_loss example_img example_img = Inr 0"
  using losses_zero_on_identical_inputs [of example_img 1 1 2]
  by (simp add: example_img_def wf_tensor_def)

text \<open>
  Against itself, a tensor of batch size two makes \<open>style_loss\<close> raise on the reshape,
  and a tensor without elements has the mean of no numbers as its content loss.
\<close>
theorem losses_on_identical_inputs_counterexample:
  "style_loss \<lparr>shape = [2, 1, 1, 1], data = [1, 2]\<rparr> \<lparr>shape = [2, 1, 1, 1], data = [1, 2]\<rparr>
     = Inl RuntimeError \<and>
   content_loss \<lparr>shape = [1, 1, 0, 1], data = []\<rparr> \<lparr>shape = [1, 1, 0, 1], data = []\<rparr>
     = Inl NonFinite"
  by (simp add: eval_defs)

section \<open>C8: the sign of the losses\<close>

text \<open>
  Claim C8. Every value that \<open>content_loss\<close> or \<open>style_loss\<close> returns is
  non-negative, and on same-shaped features with at least one element (of one image, for
  \<open>style_loss\<close>) each of them returns a value.
\<close>
theorem losses_nonnegative:
  "(content_loss g s = Inr v \<longrightarrow> 0 \<le> v) \<and>
   (style_loss g s = Inr v' \<longrightarrow> 0 \<le> v') \<and>
   (shape g = shape s \<and> wf_tensor g \<and> wf_tensor s \<and> data g \<noteq> [] \<longrightarrow>
      (\<exists>u. content_loss g s = Inr u \<and> 0 \<le> u)) \<and>
   (shape g = [1, c, h, w] \<and> shape s = [1, c, h, w] \<and> wf_tensor g \<and> wf_tensor s \<and>
    0 < c * h * w \<longrightarrow> (\<exists>u. style_loss g s = Inr u \<and> 0 \<le> u))"
proof (intro conjI impI)
  assume "content_loss g s = Inr v" then show "0 \<le> v" by (rule content_loss_nonneg)
next
  assume "style_loss g s = Inr v'" then show "0 \<le> v'" by (rule style_loss_nonneg)
next
  assume a: "shape g = shape s \<and> wf_tensor g \<and> wf_tensor s \<and> data g \<noteq> []"
  then have "length (data g) = length (data s)" by (simp add: wf_tensor_def)
  with a have "data s \<noteq> []" by auto
  with a obtain u where "content_loss g s = Inr u"
    using mse_returns [of g s] by (auto simp add: content_loss_def)
  then show "\<exists>u. content_loss g s = Inr u \<and> 0 \<le> u"
    using content_loss_nonneg by blast
next
  assume a: "shape g = [1, c, h, w] \<and> shape s = [1, c, h, w] \<and> wf_tensor g \<and> wf_tensor s \<and>
    0 < c * h * w"
  then have hw: "0 < h * w" and c: "0 < c * c" by simp_all
  from a have lg: "length (data g) = c * (h * w)" and ls: "length (data s) = c * (h * w)"
    by (simp_all add: wf_tensor_def)
  from a have sg: "shape g = [1, c, h, w]" and ss: "shape s = [1, c, h, w]" by simp_all
  let ?G = "\<lparr>shape = [c, c],
              data = map (\<lambda>v. v / real (c * h * w)) (tabulate2 c c (gram_entry (h * w) g))\<rparr>"
  let ?A = "\<lparr>shape = [c, c],
              data = map (\<lambda>v. v / real (c * h * w)) (tabulate2 c c (gram_entry (h * w) s))\<rparr>"
  have "\<exists>u. and_then (sub ?G ?A) (\<lambda>d. mean (pow2 d)) = Inr u"
    using c by (intro mse_returns) (simp_all add: tabulate2_eq_Nil)
  then obtain u where "style_loss g s = Inr u"
    by (auto simp add: style_loss_def gram_matrix_value [OF sg lg hw]
        gram_matrix_value [OF ss ls hw] and_then_def)
  then show "\<exists>u. style_loss g s = Inr u \<and> 0 \<le> u"
    using style_loss_nonneg by blast
qed

text \<open>The example image against the example style.\<close>
theorem losses_nonnegative_witness:
  "content_loss example_img example_style = Inr 1 \<and> (0::real) \<le> 1 \<and>
   style_loss example_img example_style = Inr 1 \<and>
   shape example_img = shape example_style \<and> wf_tensor example_img \<and>
   wf_tensor example_style \<and> data example_img \<noteq> [] \<and>
   (\<exists>u. content_loss example_img example_style = Inr u \<and> 0 \<le> u) \<and>
   (\<exists>u. style_loss example_img example_style = Inr u \<and> 0 \<le> u)"
  using losses_nonnegative [of example_img example_style 1 1 1 1 2]
  by (simp add: example_img_def example_style_def wf_tensor_def eval_defs)

section \<open>C9: the content loss of the first iteration\<close>

text \<open>
  Claim C9. In the first iteration the candidate is the content image, the network
  returns the same features for both, and the content loss accumulated is zero; so is the
  one printed at step 0.
\<close>
theorem initial_content_loss_zero:
  "(features env (generated (initial_state env opt0)) = Inr ls \<and>
      losses env ls = Inr (c_loss, s_loss, total_loss) \<longrightarrow> c_loss = 0) \<and>
   (iteration env total_steps 0 (initial_state env opt0) = Completed st \<longrightarrow>
      (\<exists>r. printed st = [r] \<and> p_step r = 0 \<and> p_content_loss r = 0))"
proof (intro conjI impI)
  assume a: "features env (generated (initial_state env opt0)) = Inr ls \<and>
      losses env ls = Inr (c_loss, s_loss, total_loss)"
  then have f: "features env (original_img env) = Inr ls"
    by (simp add: initial_state_def)
  from a obtain s where "layer_losses (0, 0) ls = Inr (c_loss, s)"
    by (auto simp add: losses_def split: sum.splits)
  then show "c_loss = 0"
    using layer_losses_same_content features_initial [OF f] by blast
next
  assume "iteration env total_steps 0 (initial_state env opt0) = Completed st"
  from iteration_Completed [OF this] obtain ls c s tl where
    f: "features env (generated (initial_state env opt0)) = Inr ls" and
    l: "losses env ls = Inr (c, s, tl)" and
    p: "printed st = printed (initial_state env opt0) @
          [\<lparr>p_step = 0, p_total_steps = total_steps, p_content_loss = c, p_style_loss = s,
            p_total_loss = tl\<rparr>]"
    by auto
  from f have f': "features env (original_img env) = Inr ls"
    by (simp add: initial_state_def)
  from l obtain s' where "layer_losses (0, 0) ls = Inr (c, s')"
    by (auto simp add: losses_def split: sum.splits)
  then have "c = 0"
    using layer_losses_same_content features_initial [OF f'] by blast
  with p show "\<exists>r. printed st = [r] \<and> p_step r = 0 \<and> p_content_loss r = 0"
    by (simp add: initial_state_def)
qed

text \<open>The first iteration in the example environment.\<close>
theorem initial_content_loss_zero_witness:
  "features example_env (generated (initial_state example_env ())) =
     Inr [(example_img, example_img, example_style)] \<and>
   losses example_env [(example_img, example_img, example_style)] = Inr (0, 4, 1 / 25) \<and>
   (\<exists>st. iteration example_env 10000 0 (initial_state example_env ()) = Completed st \<and>
      (\<exists>r. printed st = [r] \<and> p_step r = 0 \<and> p_content_loss r = 0))"
proof -
  have g: "generated (initial_state example_env ()) = example_img"
    by (simp add: initial_state_def example_env_def)
  obtain st where st: "iteration example_env 10000 0 (initial_state example_env ()) = Completed st"
    using example_iteration [OF g] by blast
  show ?thesis
    using initial_content_loss_zero
      [of example_env "()" "[(example_img, example_img, example_style)]" 0 4 "1 / 25" 10000 st]
      st g
    by (simp add: example_features example_losses)
qed

section \<open>C10: the reshape in gram_matrix\<close>

text \<open>
  Claim C10, amended. For a tensor of shape \<open>(b, c, h, w)\<close> the reshape to
  \<open>(c, h * w)\<close> succeeds exactly when \<open>b = 1\<close> or the tensor has no elements. With
  \<open>b = 1\<close> \<open>gram_matrix\<close> raises nothing, and returns a matrix when the spatial
  extent is nonzero; with \<open>b \<noteq> 1\<close> and at least one element per image it raises.
\<close>
theorem gram_matrix_reshape_condition:
  assumes "shape x = [b, c, h, w]" and "wf_tensor x"
  shows "((\<exists>f. view x [c, h * w] = Inr f) \<longleftrightarrow> b = 1 \<or> c * h * w = 0) \<and>
         (b = 1 \<longrightarrow> (\<exists>G. gram_matrix x = Inr G) \<or> gram_matrix x = Inl NonFinite) \<and>
         (b = 1 \<and> 0 < h * w \<longrightarrow> (\<exists>G. gram_matrix x = Inr G)) \<and>
         (b \<noteq> 1 \<and> 0 < c * h * w \<longrightarrow> gram_matrix x = Inl RuntimeError)"
proof -
  have len: "length (data x) = b * (c * (h * w))"
    using assms by (simp add: wf_tensor_def)
  have 1: "(\<exists>f. view x [c, h * w] = Inr f) \<longleftrightarrow> b = 1 \<or> c * h * w = 0"
    using len by (auto simp add: view_def)
  have 2: "(\<exists>G. gram_matrix x = Inr G) \<or> gram_matrix x = Inl NonFinite" if "b = 1"
    using that len gram_matrix_eq [OF assms(1)] by (simp add: div_scalar_def)
  have 3: "\<exists>G. gram_matrix x = Inr G" if "b = 1" "0 < h * w"
    using that len gram_matrix_value [OF assms(1)] by simp
  have 4: "gram_matrix x = Inl RuntimeError" if "b \<noteq> 1" "0 < c * h * w"
    using that len by (intro gram_matrix_raises [OF assms(1)]) auto
  from 1 2 3 4 show ?thesis by blast
qed

text \<open>A batch of two one-element features, and the example image.\<close>
theorem gram_matrix_reshape_condition_witness:
  "shape \<lparr>shape = [2, 1, 1, 1], data = [1, 2]\<rparr> = [2, 1, 1, 1] \<and>
   wf_tensor \<lparr>shape = [2, 1, 1, 1], data = [1, 2]\<rparr> \<and>
   (2::nat) \<noteq> 1 \<and> (0::nat) < 1 * 1 * 1 \<and>
   gram_matrix \<lparr>shape = [2, 1, 1, 1], data = [1, 2]\<rparr> = Inl RuntimeError \<and>
   \<not> (\<exists>f. view \<lparr>shape = [2, 1, 1, 1], data = [1, 2]\<rparr> [1, 1 * 1] = Inr f) \<and>
   shape example_img = [1, 1, 1, 2] \<and> wf_tensor example_img \<and> (0::nat) < 1 * 2 \<and>
   (\<exists>f. view example_img [1, 1 * 2] = Inr f) \<and>
   (\<exists>G. gram_matrix example_img = Inr G)"
  using gram_matrix_reshape_condition [of "\<lparr>shape = [2, 1, 1, 1], data = [1, 2]\<rparr>" 2 1 1 1]
    gram_matrix_reshape_condition [of example_img 1 1 1 2]
  by (simp add: wf_tensor_def example_img_def)

text \<open>
  A batch of two features without channels has no elements: the reshape succeeds and
  \<open>gram_matrix\<close> returns the empty matrix.
\<close>
theorem gram_matrix_batch_counterexample:
  "gram_matrix \<lparr>shape = [2, 0, 1, 1], data = []\<rparr> = Inr \<lparr>shape = [0, 0], data = []\<rparr> \<and>
   view \<lparr>shape = [2, 0, 1, 1], data = []\<rparr> [0, 1 * 1] = Inr \<lparr>shape = [0, 1], data = []\<rparr>"
  by (simp add: eval_defs)

end
